theory Spec2Isabelle
  imports Complex_Main
begin

section \<open>Rate limiter (backend/gemini_utils.py)\<close>

text \<open>
  \<^verbatim>\<open>RateLimiter.requests\<close> is a dict from user id to the list of the times of the admitted
  requests. The clock \<^verbatim>\<open>time.time()\<close> is an input of every operation; times are seconds,
  taken as real numbers (the rounding of the float subtraction is not modelled).
\<close>

type_synonym requests = "int \<rightharpoonup> real list"

text \<open>
  \<^verbatim>\<open>
  def is_allowed(self, user_id, max_requests=10, window_minutes=60):
      current_time = time.time()
      window_start = current_time - (window_minutes * 60)
      if user_id not in self.requests:
          self.requests[user_id] = []
      self.requests[user_id] = [t for t in self.requests[user_id] if t > window_start]
      if len(self.requests[user_id]) < max_requests:
          self.requests[user_id].append(current_time)
          return True
      return False
  \<close>
  The model returns the answer together with the updated dict.
\<close>

definition is_allowed :: "requests \<Rightarrow> real \<Rightarrow> int \<Rightarrow> int \<Rightarrow> int \<Rightarrow> bool \<times> requests" where
  "is_allowed reqs current_time user_id max_requests window_minutes =
     (let window_start = current_time - of_int (window_minutes * 60);
          reqs1 = (case reqs user_id of None \<Rightarrow> reqs(user_id \<mapsto> []) | Some _ \<Rightarrow> reqs);
          old = (case reqs1 user_id of None \<Rightarrow> [] | Some ts \<Rightarrow> ts);
          kept = filter (\<lambda>req_time. req_time > window_start) old;
          reqs2 = reqs1(user_id \<mapsto> kept)
      in if int (length kept) < max_requests
         then (True, reqs2(user_id \<mapsto> kept @ [current_time]))
         else (False, reqs2))"

text \<open>The timestamps stored for an identity (none when the identity has no entry).\<close>

definition recorded :: "requests \<Rightarrow> int \<Rightarrow> real list" where
  "recorded reqs user_id = (case reqs user_id of None \<Rightarrow> [] | Some ts \<Rightarrow> ts)"

text \<open>
  A run of the limiter: calls \<open>(time, identity, window)\<close> made one after the other with one
  fixed \<open>max_requests\<close>, each on the dict the previous call left.
\<close>

fun run_calls :: "int \<Rightarrow> requests \<Rightarrow> (real \<times> int \<times> int) list \<Rightarrow> requests" where
  "run_calls m reqs [] = reqs"
| "run_calls m reqs ((t, uid, w) # cs) = run_calls m (snd (is_allowed reqs t uid m w)) cs"

definition within_limit :: "int \<Rightarrow> requests \<Rightarrow> bool" where
  "within_limit m reqs = (\<forall>uid ts. reqs uid = Some ts \<longrightarrow> int (length ts) \<le> m)"

section \<open>Strings\<close>

text \<open>
  Python strings are sequences of code points; the model has the code points below 256,
  one \<^typ>\<open>char\<close> each. On that range \<^verbatim>\<open>str.isspace\<close> holds for the characters
  9 to 13, 28 to 32, 133 and 160, and \<^verbatim>\<open>str.lower\<close> moves A to Z and the capital letters
  192 to 222 (without the sign 215) up by 32.
\<close>

definition is_space :: "char \<Rightarrow> bool" where
  "is_space c =
     (let n = (of_char c :: nat)
      in (9 \<le> n \<and> n \<le> 13) \<or> (28 \<le> n \<and> n \<le> 32) \<or> n = 133 \<or> n = 160)"

text \<open>\<^verbatim>\<open>str.strip()\<close>: leading and trailing whitespace is removed.\<close>

definition strip :: "string \<Rightarrow> string" where
  "strip s = rev (dropWhile is_space (rev (dropWhile is_space s)))"

definition is_ascii_upper :: "char \<Rightarrow> bool" where
  "is_ascii_upper c = (let n = (of_char c :: nat) in 65 \<le> n \<and> n \<le> 90)"

definition is_ascii_lower :: "char \<Rightarrow> bool" where
  "is_ascii_lower c = (let n = (of_char c :: nat) in 97 \<le> n \<and> n \<le> 122)"

definition is_ascii_digit :: "char \<Rightarrow> bool" where
  "is_ascii_digit c = (let n = (of_char c :: nat) in 48 \<le> n \<and> n \<le> 57)"

definition lower_char :: "char \<Rightarrow> char" where
  "lower_char c =
     (let n = (of_char c :: nat)
      in if (65 \<le> n \<and> n \<le> 90) \<or> (192 \<le> n \<and> n \<le> 222 \<and> n \<noteq> 215)
         then char_of (n + 32) else c)"

definition lower :: "string \<Rightarrow> string" where
  "lower s = map lower_char s"

text \<open>
  \<^verbatim>\<open>str.title()\<close> on ASCII text: a letter that follows a letter is lowered, any other
  letter is raised. The source applies it to the six language names only.
\<close>

fun title_from :: "bool \<Rightarrow> string \<Rightarrow> string" where
  "title_from previous_is_cased [] = []"
| "title_from previous_is_cased (c # cs) =
     (if is_ascii_lower c
      then (if previous_is_cased then c else char_of (of_char c - (32 :: nat))) # title_from True cs
      else if is_ascii_upper c
      then (if previous_is_cased then lower_char c else c) # title_from True cs
      else c # title_from False cs)"

definition title :: "string \<Rightarrow> string" where
  "title s = title_from False s"

section \<open>Generation gateway (backend/gemini_utils.py)\<close>

subsection \<open>The request\<close>

datatype mood = Professional | Casual | Inspirational | Humorous | Thought_provoking
  | Celebratory | Motivational

datatype post_length = Short | Medium | Long

datatype language = English | Spanish | French | German | Italian | Portuguese

record post_generation_request =
  mood :: mood
  post_length :: post_length
  language :: language
  topic :: string

fun language_str :: "language \<Rightarrow> string" where
  "language_str English = ''english''"
| "language_str Spanish = ''spanish''"
| "language_str French = ''french''"
| "language_str German = ''german''"
| "language_str Italian = ''italian''"
| "language_str Portuguese = ''portuguese''"

subsection \<open>The prompt\<close>

fun length_mapping :: "post_length \<Rightarrow> string" where
  "length_mapping Short = ''1-2 sentences (maximum 280 characters)''"
| "length_mapping Medium = ''2-4 sentences (maximum 500 characters)''"
| "length_mapping Long = ''4-6 sentences (maximum 800 characters)''"

fun mood_instructions :: "mood \<Rightarrow> string" where
  "mood_instructions Professional =
     ''Use formal language, industry insights, and business-focused content''"
| "mood_instructions Casual =
     ''Use conversational tone, relatable examples, and friendly language''"
| "mood_instructions Inspirational =
     ''Focus on motivation, personal growth, and positive messages''"
| "mood_instructions Humorous =
     ''Include light humor, witty observations, but keep it professional''"
| "mood_instructions Thought_provoking =
     ''Ask questions, share insights, encourage discussion''"
| "mood_instructions Celebratory =
     ''Acknowledge achievements, milestones, or positive news''"
| "mood_instructions Motivational =
     ''Encourage action, share success stories, inspire others''"

definition nl :: string where
  "nl = [CHR 0x0A]"

text \<open>The three pieces of \<^verbatim>\<open>base_prompt\<close>, with the indentation the source file has.\<close>

definition base_prompt :: "post_generation_request \<Rightarrow> string" where
  "base_prompt request =
     nl @ ''    Create a LinkedIn post with the following specifications:'' @ nl
     @ ''    '' @ nl
     @ ''    - Mood/Tone: '' @ mood_instructions (mood request) @ nl
     @ ''    - Length: '' @ length_mapping (post_length request) @ nl
     @ ''    - Language: '' @ title (language_str (language request)) @ nl
     @ ''    ''
     @ (if topic request \<noteq> [] then ''- Topic/Focus: '' @ topic request @ nl else [])
     @ nl @ ''    Requirements:'' @ nl
     @ ''    - Make it engaging and likely to generate meaningful engagement'' @ nl
     @ ''    - Include relevant hashtags (2-5 maximum)'' @ nl
     @ ''    - Ensure it's appropriate for a professional network'' @ nl
     @ ''    - Make it authentic and valuable to the reader'' @ nl
     @ ''    - Do not include any promotional content or sales pitches'' @ nl
     @ ''    - Format it properly for LinkedIn (use line breaks where appropriate)'' @ nl
     @ ''    '' @ nl
     @ ''    Generate only the post content, no additional explanations.'' @ nl
     @ ''    ''"

subsection \<open>The provider\<close>

text \<open>
  \<^verbatim>\<open>model.generate_content\<close> is the external provider: a parameter of the model. A call
  raises or returns a response (possibly \<^verbatim>\<open>None\<close>); reading \<^verbatim>\<open>response.text\<close> raises or
  gives the text. The exceptions are told apart the way the handlers do:
  \<^verbatim>\<open>ResourceExhausted\<close>, any other \<^verbatim>\<open>GoogleAPIError\<close>, any other \<^verbatim>\<open>Exception\<close>.
\<close>

datatype py_exception = ResourceExhausted | GoogleAPIError | OtherException

datatype response = Response (response_text: "py_exception + string")

type_synonym provider = "string \<Rightarrow> py_exception + response option"

subsection \<open>The outcome\<close>

record metadata =
  md_mood :: mood
  md_length :: post_length
  md_language :: language
  character_count :: nat

text \<open>
  The returned dict: \<^verbatim>\<open>{"success": True, "post", "metadata"}\<close> or
  \<^verbatim>\<open>{"success": False, "error", "error_type"}\<close>.
\<close>

datatype post_result =
    Post (post: string) (post_metadata: metadata)
  | Failed (error: string) (error_type: string)

text \<open>The three \<^verbatim>\<open>except\<close> clauses, in the order of the source.\<close>

fun on_exception :: "py_exception \<Rightarrow> post_result" where
  "on_exception ResourceExhausted =
     Failed ''AI service quota exceeded. Please try again later.'' ''quota_exceeded''"
| "on_exception GoogleAPIError =
     Failed ''AI service temporarily unavailable. Please try again later.'' ''api_error''"
| "on_exception OtherException =
     Failed ''An unexpected error occurred. Please try again.'' ''unexpected_error''"

text \<open>The body of the \<^verbatim>\<open>try\<close> block, after the provider has answered.\<close>

definition on_text :: "post_generation_request \<Rightarrow> string \<Rightarrow> post_result" where
  "on_text request txt =
     (if txt = []
      then Failed ''Failed to generate content. Please try again.'' ''empty_response''
      else let generated_post = strip txt
           in if length generated_post < 10
              then Failed ''Generated content too short. Please try again.''
                     ''content_too_short''
              else Post generated_post
                     \<lparr>md_mood = mood request, md_length = post_length request,
                      md_language = language request,
                      character_count = length generated_post\<rparr>)"

definition on_reply :: "post_generation_request \<Rightarrow> py_exception + response option \<Rightarrow> post_result"
  where
  "on_reply request reply =
     (case reply of
        Inl exn \<Rightarrow> on_exception exn
      | Inr None \<Rightarrow> Failed ''Failed to generate content. Please try again.'' ''empty_response''
      | Inr (Some resp) \<Rightarrow>
          (case response_text resp of
             Inl exn \<Rightarrow> on_exception exn
           | Inr txt \<Rightarrow> on_text request txt))"

text \<open>
  \<^verbatim>\<open>generate_linkedin_post(request, user_id)\<close>, with the limiter's dict and the clock passed
  in. The result comes with the dict as the run leaves it and with the number of calls made
  to the provider in the run.
\<close>

definition generate_linkedin_post ::
  "provider \<Rightarrow> requests \<Rightarrow> real \<Rightarrow> post_generation_request \<Rightarrow> int
     \<Rightarrow> post_result \<times> requests \<times> nat" where
  "generate_linkedin_post generate_content reqs current_time request user_id =
     (case is_allowed reqs current_time user_id 10 60 of
        (False, reqs') \<Rightarrow>
          (Failed ''Rate limit exceeded. Please try again later.'' ''rate_limit'', reqs', 0)
      | (True, reqs') \<Rightarrow>
          (on_reply request (generate_content (base_prompt request)), reqs', 1))"

subsection \<open>Statistics\<close>

record generation_stats =
  requests_in_last_hour :: nat
  max_requests_per_hour :: int
  remaining_requests :: int

text \<open>
  \<^verbatim>\<open>
  def get_generation_stats(user_id):
      current_time = time.time()
      window_start = current_time - (60 * 60)
      user_requests = rate_limiter.requests.get(user_id, [])
      recent_requests = [req for req in user_requests if req > window_start]
      return {"requests_in_last_hour": len(recent_requests),
              "max_requests_per_hour": 10,
              "remaining_requests": max(0, 10 - len(recent_requests))}
  \<close>
  The function assigns nothing to the limiter's dict; the model returns the dict it was
  given, so that the effect on the stored state can be stated.
\<close>

definition get_generation_stats ::
  "requests \<Rightarrow> real \<Rightarrow> int \<Rightarrow> generation_stats \<times> requests" where
  "get_generation_stats reqs current_time user_id =
     (let window_start = current_time - (60 * 60);
          user_requests = (case reqs user_id of None \<Rightarrow> [] | Some ts \<Rightarrow> ts);
          recent_requests = filter (\<lambda>req. req > window_start) user_requests
      in (\<lparr>requests_in_last_hour = length recent_requests,
           max_requests_per_hour = 10,
           remaining_requests = max 0 (10 - int (length recent_requests))\<rparr>, reqs))"

section \<open>Authentication (backend/auth.py)\<close>

text \<open>An \<^verbatim>\<open>HTTPException\<close> as the caller receives it: status code, detail, headers.\<close>

datatype http_exception =
  HTTPException (status_code: nat) (detail: string) (headers: "(string \<times> string) list")

subsection \<open>The User model and its validators\<close>

definition is_word_char :: "char \<Rightarrow> bool" where
  "is_word_char c = (is_ascii_lower c \<or> is_ascii_upper c \<or> is_ascii_digit c \<or> c = CHR ''_'')"

text \<open>
  \<^verbatim>\<open>re.match(r'^[a-zA-Z0-9_]+$', v)\<close>. The class matches a longest run of word characters
  from the start; Python's \<^verbatim>\<open>$\<close> then matches at the end of the string and also just before
  a newline that ends the string.
\<close>

definition username_pattern_matches :: "string \<Rightarrow> bool" where
  "username_pattern_matches v =
     (let run = takeWhile is_word_char v; rest = dropWhile is_word_char v
      in run \<noteq> [] \<and> (rest = [] \<or> rest = nl))"

text \<open>A validator returns the value to store, or the message of the \<^verbatim>\<open>ValueError\<close>.\<close>

definition validate_username :: "string \<Rightarrow> string + string" where
  "validate_username v =
     (if v = [] \<or> length v < 3 then Inl ''Username must be at least 3 characters long''
      else if length v > 50 then Inl ''Username must be less than 50 characters''
      else if \<not> username_pattern_matches v
      then Inl ''Username can only contain letters, numbers, and underscores''
      else Inr (lower v))"

definition validate_password :: "string \<Rightarrow> string + string" where
  "validate_password v =
     (if v = [] \<or> length v < 8 then Inl ''Password must be at least 8 characters long''
      else if length v > 128 then Inl ''Password must be less than 128 characters''
      else if \<not> list_ex is_ascii_upper v
      then Inl ''Password must contain at least one uppercase letter''
      else if \<not> list_ex is_ascii_lower v
      then Inl ''Password must contain at least one lowercase letter''
      else if \<not> list_ex is_ascii_digit v
      then Inl ''Password must contain at least one digit''
      else Inr v)"

record user =
  username :: string
  password :: string

text \<open>
  Building \<^verbatim>\<open>User(username=..., password=...)\<close> runs both validators and raises one
  validation error with the messages of those that failed.
\<close>

definition new_User :: "string \<Rightarrow> string \<Rightarrow> string list + user" where
  "new_User u p =
     (case (validate_username u, validate_password p) of
        (Inr u', Inr p') \<Rightarrow> Inr \<lparr>username = u', password = p'\<rparr>
      | (Inl e1, Inr _) \<Rightarrow> Inl [e1]
      | (Inr _, Inl e2) \<Rightarrow> Inl [e2]
      | (Inl e1, Inl e2) \<Rightarrow> Inl [e1, e2])"

subsection \<open>Storage and password hashing\<close>

text \<open>
  The \<^verbatim>\<open>users\<close> table as the list of its rows, with the counter that numbers new rows.
  \<open>available\<close> is false when the statements sent to the database raise.
\<close>

record user_row =
  row_id :: int
  row_username :: string
  row_password :: string
  row_created_at :: int

record database =
  rows :: "user_row list"
  next_id :: int
  available :: bool

text \<open>
  The password context of passlib is a parameter: its \<^verbatim>\<open>hash\<close> and \<^verbatim>\<open>verify\<close>. Either
  call can raise; the result is \<open>None\<close> then.
\<close>

record pwd_context =
  hash :: "string \<Rightarrow> string option"
  verify :: "string \<Rightarrow> string \<Rightarrow> bool option"

text \<open>
  The context is configured with the bcrypt scheme, which refuses a password that contains
  the NUL character: \<^verbatim>\<open>hash\<close> and \<^verbatim>\<open>verify\<close> raise. \<open>refusing_nul h v\<close> is a context that
  does so and computes with \<open>h\<close> and \<open>v\<close> on every other password.
\<close>

definition refusing_nul :: "(string \<Rightarrow> string) \<Rightarrow> (string \<Rightarrow> string \<Rightarrow> bool) \<Rightarrow> pwd_context"
  where
  "refusing_nul h v =
     \<lparr>hash = (\<lambda>secret. if CHR 0x00 \<in> set secret then None else Some (h secret)),
      verify = (\<lambda>secret digest. if CHR 0x00 \<in> set secret then None
                                else Some (v secret digest))\<rparr>"

text \<open>
  What leaves a function by an exception: an \<^verbatim>\<open>HTTPException\<close>, or another exception
  that the function does not catch.
\<close>

datatype raised = HTTP http_exception | Unhandled

record user_response =
  response_username :: string
  message :: string

subsection \<open>signup\<close>

text \<open>
  \<^verbatim>\<open>signup(user, db)\<close>. The password is hashed first, outside the \<^verbatim>\<open>try\<close>: an
  exception of \<^verbatim>\<open>pwd_context.hash\<close> leaves the function. Then a row with the same username
  stops the request with status 400; otherwise the row is inserted and committed. Any other
  exception inside the \<^verbatim>\<open>try\<close> rolls back and gives status 500.
\<close>

definition signup ::
  "pwd_context \<Rightarrow> int \<Rightarrow> user \<Rightarrow> database \<Rightarrow> (raised + user_response) \<times> database"
  where
  "signup ctx utcnow usr db =
     (case hash ctx (password usr) of
        None \<Rightarrow> (Inl Unhandled, db)
      | Some hashed_password \<Rightarrow>
          if \<not> available db
          then (Inl (HTTP (HTTPException 500 ''Internal server error during signup'' [])), db)
          else if list_ex (\<lambda>r. row_username r = username usr) (rows db)
          then (Inl (HTTP (HTTPException 400 ''Username already exists'' [])), db)
          else (Inr \<lparr>response_username = username usr,
                     message = ''User created successfully''\<rparr>,
                db\<lparr>rows := rows db @
                       [\<lparr>row_id = next_id db, row_username = username usr,
                         row_password = hashed_password, row_created_at = utcnow\<rparr>],
                   next_id := next_id db + 1\<rparr>))"

text \<open>
  A request to \<^verbatim>\<open>POST /auth/signup\<close>: the body is turned into a \<^verbatim>\<open>User\<close> first, and
  \<^verbatim>\<open>signup\<close> runs only when that succeeded.
\<close>

datatype signup_outcome =
    ValidationError "string list"
  | Raised raised
  | Created user_response

definition signup_request ::
  "pwd_context \<Rightarrow> int \<Rightarrow> string \<Rightarrow> string \<Rightarrow> database \<Rightarrow> signup_outcome \<times> database" where
  "signup_request ctx utcnow u p db =
     (case new_User u p of
        Inl errs \<Rightarrow> (ValidationError errs, db)
      | Inr usr \<Rightarrow>
          (case signup ctx utcnow usr db of
             (Inl e, db') \<Rightarrow> (Raised e, db')
           | (Inr r, db') \<Rightarrow> (Created r, db')))"

subsection \<open>Tokens\<close>

text \<open>
  The tokens are made and read by the PyJWT library, which is outside the repository and is
  a parameter of the model: \<^verbatim>\<open>jwt.encode\<close> and \<^verbatim>\<open>jwt.decode\<close> with the configured secret
  and algorithm, the second at the time of the call. \<^verbatim>\<open>jwt.decode\<close> returns the claims or
  raises: \<^verbatim>\<open>ExpiredSignatureError\<close>, another \<^verbatim>\<open>PyJWTError\<close>, or an exception of another
  class. The clock of the token code counts whole seconds.
\<close>

datatype json = JNull | JStr string | JInt int

type_synonym payload = "string \<rightharpoonup> json"

datatype jwt_exception = ExpiredSignatureError | OtherPyJWTError | OtherError

record 'tok jwt_library =
  encode :: "payload \<Rightarrow> 'tok option"
  decode :: "int \<Rightarrow> 'tok \<Rightarrow> jwt_exception + payload"

text \<open>
  \<^verbatim>\<open>create_access_token(data)\<close>: \<^verbatim>\<open>exp\<close>, \<^verbatim>\<open>iat\<close> and \<^verbatim>\<open>type\<close> are added to the data and
  the result is encoded (\<open>None\<close> when \<^verbatim>\<open>jwt.encode\<close> raises).
\<close>

definition access_token_payload :: "int \<Rightarrow> int \<Rightarrow> payload \<Rightarrow> payload" where
  "access_token_payload access_token_expire_minutes utcnow data =
     data(''exp'' \<mapsto> JInt (utcnow + access_token_expire_minutes * 60),
          ''iat'' \<mapsto> JInt utcnow,
          ''type'' \<mapsto> JStr ''access'')"

definition create_access_token :: "'tok jwt_library \<Rightarrow> int \<Rightarrow> int \<Rightarrow> payload \<Rightarrow> 'tok option"
  where
  "create_access_token lib access_token_expire_minutes utcnow data =
     encode lib (access_token_payload access_token_expire_minutes utcnow data)"

text \<open>\<^verbatim>\<open>payload.get(key)\<close>: \<^verbatim>\<open>None\<close> for a missing key.\<close>

definition payload_get :: "payload \<Rightarrow> string \<Rightarrow> json" where
  "payload_get payload k = (case payload k of None \<Rightarrow> JNull | Some v \<Rightarrow> v)"

record identity =
  identity_username :: json
  identity_user_id :: json

definition credentials_exception :: http_exception where
  "credentials_exception =
     HTTPException 401 ''Could not validate credentials'' [(''WWW-Authenticate'', ''Bearer'')]"

text \<open>
  \<^verbatim>\<open>get_current_user(token)\<close>. The two \<^verbatim>\<open>except\<close> clauses catch the exceptions of PyJWT;
  an exception of another class leaves the function.
\<close>

definition get_current_user :: "'tok jwt_library \<Rightarrow> int \<Rightarrow> 'tok \<Rightarrow> raised + identity" where
  "get_current_user lib now token =
     (case decode lib now token of
        Inl ExpiredSignatureError \<Rightarrow>
          Inl (HTTP (HTTPException 401 ''Token has expired''
                       [(''WWW-Authenticate'', ''Bearer'')]))
      | Inl OtherPyJWTError \<Rightarrow> Inl (HTTP credentials_exception)
      | Inl OtherError \<Rightarrow> Inl Unhandled
      | Inr payload \<Rightarrow>
          (let sub = payload_get payload ''sub'';
               user_id = payload_get payload ''user_id'';
               token_type = payload_get payload ''type''
           in if sub = JNull \<or> user_id = JNull \<or> token_type \<noteq> JStr ''access''
              then Inl (HTTP credentials_exception)
              else Inr \<lparr>identity_username = sub, identity_user_id = user_id\<rparr>))"

subsection \<open>A reference library\<close>

text \<open>
  An instance of the library for the examples: PyJWT 2.10 with the options the code leaves at
  their defaults, on tokens whose time claims are integers. A token is what the library
  observes of it: whether it parses, whether its signature verifies under
  \<^verbatim>\<open>settings.jwt_secret_key\<close>, its \<^verbatim>\<open>exp\<close>, \<^verbatim>\<open>iat\<close> and \<^verbatim>\<open>nbf\<close> claims, and its claims as
  a whole. The library checks the signature, then \<^verbatim>\<open>iat\<close> and \<^verbatim>\<open>nbf\<close> (neither may be in
  the future), then \<^verbatim>\<open>exp\<close> (which must be in the future), then \<^verbatim>\<open>aud\<close> (no audience is
  expected, so a token that names one is refused), then \<^verbatim>\<open>sub\<close> and \<^verbatim>\<open>jti\<close> (strings when
  present).
\<close>

record jwt_token =
  well_formed :: bool
  signature_ok :: bool
  expiry :: "int option"
  issued_at :: "int option"
  not_before :: "int option"
  claims :: payload

fun truthy :: "json \<Rightarrow> bool" where
  "truthy JNull = False"
| "truthy (JStr s) = (s \<noteq> [])"
| "truthy (JInt n) = (n \<noteq> 0)"

fun is_str :: "json \<Rightarrow> bool" where
  "is_str (JStr s) = True"
| "is_str _ = False"

definition pyjwt_decode :: "int \<Rightarrow> jwt_token \<Rightarrow> jwt_exception + payload" where
  "pyjwt_decode now tok =
     (if \<not> well_formed tok \<or> \<not> signature_ok tok then Inl OtherPyJWTError
      else if (case issued_at tok of None \<Rightarrow> False | Some iat \<Rightarrow> now < iat)
      then Inl OtherPyJWTError
      else if (case not_before tok of None \<Rightarrow> False | Some nbf \<Rightarrow> now < nbf)
      then Inl OtherPyJWTError
      else if (case expiry tok of None \<Rightarrow> False | Some e \<Rightarrow> e \<le> now)
      then Inl ExpiredSignatureError
      else if (case claims tok ''aud'' of None \<Rightarrow> False | Some aud \<Rightarrow> truthy aud)
      then Inl OtherPyJWTError
      else if (case claims tok ''sub'' of None \<Rightarrow> False | Some sub \<Rightarrow> \<not> is_str sub)
      then Inl OtherPyJWTError
      else if (case claims tok ''jti'' of None \<Rightarrow> False | Some jti \<Rightarrow> \<not> is_str jti)
      then Inl OtherPyJWTError
      else Inr (claims tok))"

definition int_claim :: "payload \<Rightarrow> string \<Rightarrow> int option" where
  "int_claim p k = (case p k of Some (JInt n) \<Rightarrow> Some n | _ \<Rightarrow> None)"

definition pyjwt_encode :: "payload \<Rightarrow> jwt_token option" where
  "pyjwt_encode p =
     Some \<lparr>well_formed = True, signature_ok = True, expiry = int_claim p ''exp'',
           issued_at = int_claim p ''iat'', not_before = int_claim p ''nbf'', claims = p\<rparr>"

definition pyjwt :: "jwt_token jwt_library" where
  "pyjwt = \<lparr>encode = pyjwt_encode, decode = pyjwt_decode\<rparr>"

subsection \<open>login\<close>

record 'tok token_response =
  access_token :: 'tok
  token_type :: string

text \<open>
  \<^verbatim>\<open>login(form_data, db)\<close>: the row is looked up under the lowercased username; a missing
  row and a password that \<^verbatim>\<open>pwd_context.verify\<close> refuses raise the same exception. The
  lookup, the verification and the making of the token are inside the \<^verbatim>\<open>try\<close>: any other
  exception of theirs gives status 500.
\<close>

definition login ::
  "pwd_context \<Rightarrow> 'tok jwt_library \<Rightarrow> int \<Rightarrow> int \<Rightarrow> string \<Rightarrow> string \<Rightarrow> database
     \<Rightarrow> http_exception + 'tok token_response" where
  "login ctx lib access_token_expire_minutes utcnow form_username form_password db =
     (if \<not> available db
      then Inl (HTTPException 500 ''Internal server error during login'' [])
      else case find (\<lambda>r. row_username r = lower form_username) (rows db) of
             None \<Rightarrow>
               Inl (HTTPException 401 ''Invalid username or password''
                      [(''WWW-Authenticate'', ''Bearer'')])
           | Some row \<Rightarrow>
               (case verify ctx form_password (row_password row) of
                  None \<Rightarrow> Inl (HTTPException 500 ''Internal server error during login'' [])
                | Some False \<Rightarrow>
                    Inl (HTTPException 401 ''Invalid username or password''
                           [(''WWW-Authenticate'', ''Bearer'')])
                | Some True \<Rightarrow>
                    (case create_access_token lib access_token_expire_minutes utcnow
                            [''sub'' \<mapsto> JStr (row_username row),
                             ''user_id'' \<mapsto> JInt (row_id row)] of
                       None \<Rightarrow>
                         Inl (HTTPException 500 ''Internal server error during login'' [])
                     | Some tok \<Rightarrow> Inr \<lparr>access_token = tok, token_type = ''bearer''\<rparr>)))"

section \<open>Properties of the rate limiter\<close>

lemma is_allowed_result:
  "is_allowed reqs now uid m w =
     (let kept = filter (\<lambda>t. t > now - of_int (w * 60)) (recorded reqs uid)
      in if int (length kept) < m then (True, reqs(uid \<mapsto> kept @ [now]))
         else (False, reqs(uid \<mapsto> kept)))"
  by (simp add: is_allowed_def recorded_def Let_def split: option.splits)

lemma is_allowed_within_limit:
  assumes "0 \<le> m" and "within_limit m reqs"
  shows "within_limit m (snd (is_allowed reqs now uid m w))"
proof -
  let ?kept = "filter (\<lambda>t. t > now - of_int (w * 60)) (recorded reqs uid)"
  show ?thesis
  proof (cases "int (length ?kept) < m")
    case True
    then have "int (length (?kept @ [now])) \<le> m" by simp
    with assms(2) True show ?thesis
      unfolding within_limit_def by (auto simp: is_allowed_result Let_def)
  next
    case False
    have "length ?kept \<le> length (recorded reqs uid)" by simp
    moreover have "int (length (recorded reqs uid)) \<le> m"
      using assms by (auto simp: within_limit_def recorded_def split: option.splits)
    ultimately have "int (length ?kept) \<le> m" by linarith
    with assms(2) False show ?thesis
      unfolding within_limit_def by (auto simp: is_allowed_result Let_def)
  qed
qed

lemma run_calls_within_limit:
  "0 \<le> m \<Longrightarrow> within_limit m reqs \<Longrightarrow> within_limit m (run_calls m reqs cs)"
proof (induction cs arbitrary: reqs)
  case Nil
  then show ?case by simp
next
  case (Cons c cs)
  obtain t uid w where c: "c = (t, uid, w)" by (cases c)
  have "within_limit m (snd (is_allowed reqs t uid m w))"
    using Cons.prems by (rule is_allowed_within_limit)
  with Cons.IH [OF Cons.prems(1)] show ?case by (simp add: c)
qed

lemma is_allowed_fresh:
  "reqs X = None \<Longrightarrow> 0 < m \<Longrightarrow> is_allowed reqs t X m w = (True, reqs(X \<mapsto> [t]))"
  by (simp add: is_allowed_result recorded_def)

lemma is_allowed_at:
  "reqs X = Some ts \<Longrightarrow>
   is_allowed reqs t X m w =
     (if int (length (filter (\<lambda>s. t - of_int (w * 60) < s) ts)) < m
      then (True, reqs(X \<mapsto> filter (\<lambda>s. t - of_int (w * 60) < s) ts @ [t]))
      else (False, reqs(X \<mapsto> filter (\<lambda>s. t - of_int (w * 60) < s) ts)))"
  by (simp add: is_allowed_result recorded_def Let_def)

lemma is_allowed_fst_other:
  "st' Y = st Y \<Longrightarrow> fst (is_allowed st' t Y m w) = fst (is_allowed st t Y m w)"
  by (simp add: is_allowed_result recorded_def Let_def)

text \<open>
  C1. Every call of \<^verbatim>\<open>is_allowed\<close> first drops the identity's timestamps that are not
  newer than \<open>now - window\<close> (the window is \<open>w\<close> minutes, that is \<open>w * 60\<close> seconds; a
  timestamp equal to \<open>now - window\<close> is dropped with the older ones). If fewer than
  \<open>max_requests\<close> remain it records \<open>now\<close> and answers true; otherwise it answers false and
  records nothing. With a limit of 3 and a window of 60 seconds, three calls for a new
  identity \<open>X\<close> inside one window are admitted, the fourth is refused, a call made once the
  window of the first has elapsed is admitted again, and the answer to another identity
  \<open>Y\<close> is the one it would have got had \<open>X\<close> never called.
\<close>

theorem is_allowed_purges_then_admits:
  assumes "reqs X = None" and "t1 \<le> t2" and "t2 \<le> t3" and "t3 \<le> t4" and "t4 < t1 + 60"
    and "t1 + 60 \<le> t5" and "Y \<noteq> X"
  shows
    "is_allowed st now uid m w =
       (let kept = filter (\<lambda>t. now - of_int (w * 60) < t) (recorded st uid)
        in if int (length kept) < m then (True, st(uid \<mapsto> kept @ [now]))
           else (False, st(uid \<mapsto> kept)))
     \<and> (let r1 = is_allowed reqs t1 X 3 1;
            r2 = is_allowed (snd r1) t2 X 3 1;
            r3 = is_allowed (snd r2) t3 X 3 1;
            r4 = is_allowed (snd r3) t4 X 3 1;
            r5 = is_allowed (snd r4) t5 X 3 1
        in fst r1 \<and> fst r2 \<and> fst r3 \<and> \<not> fst r4 \<and> snd r4 = snd r3 \<and> fst r5
           \<and> fst (is_allowed (snd r4) t Y 3 1) = fst (is_allowed reqs t Y 3 1))"
proof -
  have a: "t2 - 60 < t1" "t3 - 60 < t1" "t3 - 60 < t2"
    "t4 - 60 < t1" "t4 - 60 < t2" "t4 - 60 < t3" "\<not> t5 - 60 < t1"
    using assms by linarith+
  have r1: "is_allowed reqs t1 X 3 1 = (True, reqs(X \<mapsto> [t1]))"
    using assms(1) by (simp add: is_allowed_fresh)
  have r2: "is_allowed (reqs(X \<mapsto> [t1])) t2 X 3 1 = (True, reqs(X \<mapsto> [t1, t2]))"
    using a by (simp add: is_allowed_at)
  have r3: "is_allowed (reqs(X \<mapsto> [t1, t2])) t3 X 3 1 = (True, reqs(X \<mapsto> [t1, t2, t3]))"
    using a by (simp add: is_allowed_at)
  have r4: "is_allowed (reqs(X \<mapsto> [t1, t2, t3])) t4 X 3 1 = (False, reqs(X \<mapsto> [t1, t2, t3]))"
    using a by (simp add: is_allowed_at)
  have r5: "fst (is_allowed (reqs(X \<mapsto> [t1, t2, t3])) t5 X 3 1)"
    using a by (simp add: is_allowed_at)
  have y: "fst (is_allowed (reqs(X \<mapsto> [t1, t2, t3])) t Y 3 1) = fst (is_allowed reqs t Y 3 1)"
    using assms(7) by (intro is_allowed_fst_other) simp
  have g: "is_allowed st now uid m w =
       (let kept = filter (\<lambda>t. now - of_int (w * 60) < t) (recorded st uid)
        in if int (length kept) < m then (True, st(uid \<mapsto> kept @ [now]))
           else (False, st(uid \<mapsto> kept)))"
    by (rule is_allowed_result)
  show ?thesis
    unfolding Let_def r1 snd_conv fst_conv r2 r3 r4
    using r5 y g [unfolded Let_def] by simp
qed

theorem is_allowed_purges_then_admits_witness:
  "(Map.empty :: requests) 1 = None \<and> (0::real) \<le> 10 \<and> (10::real) \<le> 20 \<and> (20::real) \<le> 30
   \<and> (30::real) < 0 + 60 \<and> (0::real) + 60 \<le> 60 \<and> (2::int) \<noteq> 1
   \<and> is_allowed Map.empty 0 1 3 1 = (True, [1 \<mapsto> [0]])
   \<and> is_allowed [1 \<mapsto> [0]] 10 1 3 1 = (True, [1 \<mapsto> [0, 10]])
   \<and> is_allowed [1 \<mapsto> [0, 10]] 20 1 3 1 = (True, [1 \<mapsto> [0, 10, 20]])
   \<and> is_allowed [1 \<mapsto> [0, 10, 20]] 30 1 3 1 = (False, [1 \<mapsto> [0, 10, 20]])
   \<and> is_allowed [1 \<mapsto> [0, 10, 20]] 60 1 3 1 = (True, [1 \<mapsto> [10, 20, 60]])
   \<and> fst (is_allowed [1 \<mapsto> [0, 10, 20]] 30 2 3 1)"
proof -
  note w = is_allowed_purges_then_admits
    [where reqs = Map.empty and X = 1 and ?t1.0 = 0 and ?t2.0 = 10 and ?t3.0 = 20 and ?t4.0 = 30
      and ?t5.0 = 60 and Y = 2 and st = "[1 \<mapsto> [0, 10, 20]]" and now = 60 and uid = 1
      and m = 3 and w = 1 and t = 30]
  have e: "is_allowed Map.empty 0 1 3 1 = (True, [1 \<mapsto> [0]])"
    "is_allowed [1 \<mapsto> [0]] 10 1 3 1 = (True, [1 \<mapsto> [0, 10]])"
    "is_allowed [1 \<mapsto> [0, 10]] 20 1 3 1 = (True, [1 \<mapsto> [0, 10, 20]])"
    "is_allowed [1 \<mapsto> [0, 10, 20]] 30 1 3 1 = (False, [1 \<mapsto> [0, 10, 20]])"
    "fst (is_allowed Map.empty 30 2 3 1)"
    by (simp_all add: is_allowed_def)
  show ?thesis using w e by (simp add: recorded_def)
qed

lemma recorded_within_limit:
  "within_limit m reqs \<Longrightarrow> 0 \<le> m \<Longrightarrow> int (length (recorded reqs uid)) \<le> m"
  by (auto simp: within_limit_def recorded_def split: option.splits)

text \<open>
  C10. For a fixed limit \<open>m \<ge> 0\<close>, a call of \<^verbatim>\<open>is_allowed\<close> keeps the invariant that no
  identity has more than \<open>m\<close> stored timestamps; so after any sequence of calls that starts
  from the empty dict, with any identities, times and windows, every identity has at most
  \<open>m\<close> of them.
\<close>

theorem is_allowed_never_exceeds_limit:
  "0 \<le> m \<Longrightarrow>
     (within_limit m reqs \<longrightarrow> within_limit m (snd (is_allowed reqs now uid m w)))
     \<and> (\<forall>u. int (length (recorded (run_calls m Map.empty calls) u)) \<le> m)"
proof -
  assume m: "0 \<le> m"
  have "within_limit m Map.empty" by (simp add: within_limit_def)
  with m have "within_limit m (run_calls m Map.empty calls)"
    by (rule run_calls_within_limit)
  with m show ?thesis
    by (auto intro: is_allowed_within_limit recorded_within_limit)
qed

theorem is_allowed_never_exceeds_limit_witness:
  "(0::int) \<le> 2 \<and> within_limit 2 [1 \<mapsto> [0, 5]]
   \<and> within_limit 2 (snd (is_allowed [1 \<mapsto> [0, 5]] 10 1 2 1))
   \<and> recorded (run_calls 2 Map.empty [(0, 1, 1), (1, 1, 1), (2, 1, 1), (3, 2, 1)]) 1 = [0, 1]
   \<and> (\<forall>u. int (length (recorded (run_calls 2 Map.empty
                                    [(0, 1, 1), (1, 1, 1), (2, 1, 1), (3, 2, 1)]) u)) \<le> 2)"
proof -
  have a: "within_limit 2 [1 \<mapsto> [0, 5]]"
    by (simp add: within_limit_def)
  have b: "recorded (run_calls 2 Map.empty [(0, 1, 1), (1, 1, 1), (2, 1, 1), (3, 2, 1)]) 1 = [0, 1]"
    by (simp add: is_allowed_def recorded_def)
  show ?thesis
    using a b is_allowed_never_exceeds_limit
      [of 2 "[1 \<mapsto> [0, 5]]" 10 1 1 "[(0, 1, 1), (1, 1, 1), (2, 1, 1), (3, 2, 1)]"]
    by simp
qed

section \<open>Properties of the generation gateway\<close>

text \<open>
  C2. \<^verbatim>\<open>generate_linkedin_post\<close> asks the rate limiter (10 requests in 60 minutes) first.
  When the limiter refuses, the result is the \<^verbatim>\<open>rate_limit\<close> failure, the dict is the one
  the limiter left, and the provider has been called 0 times, whatever the provider and
  the request are.
\<close>

theorem generate_rate_limited_skips_provider:
  "\<not> fst (is_allowed reqs now user_id 10 60) \<Longrightarrow>
     generate_linkedin_post generate_content reqs now request user_id =
       (Failed ''Rate limit exceeded. Please try again later.'' ''rate_limit'',
        snd (is_allowed reqs now user_id 10 60), 0)"
  by (cases "is_allowed reqs now user_id 10 60") (simp add: generate_linkedin_post_def)

theorem generate_rate_limited_skips_provider_witness:
  "\<not> fst (is_allowed [7 \<mapsto> [1, 2, 3, 4, 5, 6, 7, 8, 9, 10]] 11 7 10 60)
   \<and> generate_linkedin_post (\<lambda>prompt. Inl OtherException)
        [7 \<mapsto> [1, 2, 3, 4, 5, 6, 7, 8, 9, 10]] 11
        \<lparr>mood = Casual, post_length = Short, language = English, topic = []\<rparr> 7 =
       (Failed ''Rate limit exceeded. Please try again later.'' ''rate_limit'',
        [7 \<mapsto> [1, 2, 3, 4, 5, 6, 7, 8, 9, 10]], 0)"
proof -
  have a: "is_allowed [7 \<mapsto> [1, 2, 3, 4, 5, 6, 7, 8, 9, 10]] 11 7 10 60
             = (False, [7 \<mapsto> [1, 2, 3, 4, 5, 6, 7, 8, 9, 10]])"
    by (simp add: is_allowed_def)
  show ?thesis
    using generate_rate_limited_skips_provider
      [of "[7 \<mapsto> [1, 2, 3, 4, 5, 6, 7, 8, 9, 10]]" 11 7 "\<lambda>prompt. Inl OtherException"
          "\<lparr>mood = Casual, post_length = Short, language = English, topic = []\<rparr>"]
    by (simp add: a)
qed

text \<open>
  C4. When the limiter admits the run, the dict after the run is the one the limiter left,
  for every behaviour of the provider (empty text, quota exhaustion, any other failure,
  success): the time recorded at admission is the last entry of the identity's window, after
  the entries of the last hour, and nothing takes it back. The provider was called once.
\<close>

theorem generate_keeps_recorded_request:
  "fst (is_allowed reqs now user_id 10 60) \<Longrightarrow>
     fst (snd (generate_linkedin_post generate_content reqs now request user_id))
       = snd (is_allowed reqs now user_id 10 60)
     \<and> recorded (fst (snd (generate_linkedin_post generate_content reqs now request user_id)))
         user_id
       = filter (\<lambda>t. now - 3600 < t) (recorded reqs user_id) @ [now]
     \<and> snd (snd (generate_linkedin_post generate_content reqs now request user_id)) = 1"
proof -
  assume a: "fst (is_allowed reqs now user_id 10 60)"
  obtain reqs' where r: "is_allowed reqs now user_id 10 60 = (True, reqs')"
    using a by (cases "is_allowed reqs now user_id 10 60") simp
  have "int (length (filter (\<lambda>t. now - 3600 < t) (recorded reqs user_id))) < 10"
    using a by (simp add: is_allowed_result Let_def split: if_splits)
  then have "recorded reqs' user_id = filter (\<lambda>t. now - 3600 < t) (recorded reqs user_id) @ [now]"
    using r by (auto simp: is_allowed_result Let_def recorded_def)
  then show ?thesis
    by (simp add: generate_linkedin_post_def r)
qed

theorem generate_keeps_recorded_request_witness:
  "fst (is_allowed [7 \<mapsto> [100]] 4000 7 10 60)
   \<and> generate_linkedin_post (\<lambda>prompt. Inr (Some (Response (Inr []))))
        [7 \<mapsto> [100]] 4000
        \<lparr>mood = Casual, post_length = Short, language = English, topic = []\<rparr> 7
       = (Failed ''Failed to generate content. Please try again.'' ''empty_response'',
          [7 \<mapsto> [4000]], 1)
   \<and> generate_linkedin_post (\<lambda>prompt. Inl ResourceExhausted)
        [7 \<mapsto> [100]] 4000
        \<lparr>mood = Casual, post_length = Short, language = English, topic = []\<rparr> 7
       = (Failed ''AI service quota exceeded. Please try again later.'' ''quota_exceeded'',
          [7 \<mapsto> [4000]], 1)
   \<and> recorded (fst (snd (generate_linkedin_post (\<lambda>prompt. Inl ResourceExhausted)
        [7 \<mapsto> [100]] 4000
        \<lparr>mood = Casual, post_length = Short, language = English, topic = []\<rparr> 7))) 7
       = [4000]"
proof -
  have a: "is_allowed [7 \<mapsto> [100]] 4000 7 10 60 = (True, [7 \<mapsto> [4000]])"
    by (simp add: is_allowed_def)
  have b: "recorded [7 \<mapsto> [100]] 7 = [100]"
    by (simp add: recorded_def)
  show ?thesis
    using generate_keeps_recorded_request
      [of "[7 \<mapsto> [100]]" 4000 7 "\<lambda>prompt. Inl ResourceExhausted"
          "\<lparr>mood = Casual, post_length = Short, language = English, topic = []\<rparr>"]
    by (simp add: a b generate_linkedin_post_def on_reply_def on_text_def)
qed

text \<open>
  C3, as stated, fails: \<^verbatim>\<open>get_generation_stats\<close> does not purge the stored state. An entry
  made at time 0 is out of the one-hour window at time 7200 and is still stored afterwards.
\<close>

theorem get_generation_stats_keeps_stale_entry:
  "filter (\<lambda>t. 7200 - 60 * 60 < t) [0 :: real] = []
   \<and> snd (get_generation_stats [1 \<mapsto> [0]] 7200 1) 1 = Some [0]"
  by (simp add: get_generation_stats_def)

text \<open>
  C3, amended. \<^verbatim>\<open>get_generation_stats\<close> leaves the stored state of the rate limiter
  exactly as it was: it purges nothing and records nothing. It counts the identity's entries
  newer than \<open>now - 3600\<close> seconds in a local copy and reports that count, the fixed maximum
  10, and the remainder \<open>max 0 (10 - count)\<close>.
\<close>

theorem get_generation_stats_reads_only:
  "get_generation_stats reqs now user_id =
     (\<lparr>requests_in_last_hour = length (filter (\<lambda>t. now - 3600 < t) (recorded reqs user_id)),
       max_requests_per_hour = 10,
       remaining_requests =
         max 0 (10 - int (length (filter (\<lambda>t. now - 3600 < t) (recorded reqs user_id))))\<rparr>,
      reqs)"
  by (simp add: get_generation_stats_def recorded_def Let_def)

lemma generate_admitted:
  "fst (is_allowed reqs now user_id 10 60) \<Longrightarrow>
     fst (generate_linkedin_post generate_content reqs now request user_id)
       = on_reply request (generate_content (base_prompt request))"
  by (cases "is_allowed reqs now user_id 10 60") (simp add: generate_linkedin_post_def)

lemma strip_examples:
  "strip ''hi          '' = ''hi''"
  "strip ''   '' = []"
  "strip ''  Hello, LinkedIn!  '' = ''Hello, LinkedIn!''"
  by (simp_all add: strip_def is_space_def)

text \<open>
  C5, as stated, fails. The emptiness test reads the text as the provider gave it, the
  length test and the result read it after \<^verbatim>\<open>strip()\<close>. A reply of 12 characters, ``hi''
  and ten spaces, is neither empty nor shorter than 10 and raises nothing, yet the outcome is
  \<^verbatim>\<open>content_too_short\<close>; a reply of three spaces, empty once stripped, is
  \<^verbatim>\<open>content_too_short\<close> and not \<^verbatim>\<open>empty_response\<close>; and a successful run carries the
  stripped text and its length, not the text generated.
\<close>

theorem generate_measures_stripped_text:
  "fst (is_allowed Map.empty 0 1 10 60)
   \<and> length ''hi          '' = 12
   \<and> fst (generate_linkedin_post (\<lambda>prompt. Inr (Some (Response (Inr ''hi          ''))))
          Map.empty 0
          \<lparr>mood = Casual, post_length = Short, language = English, topic = []\<rparr> 1)
       = Failed ''Generated content too short. Please try again.'' ''content_too_short''
   \<and> strip ''   '' = []
   \<and> fst (generate_linkedin_post (\<lambda>prompt. Inr (Some (Response (Inr ''   ''))))
          Map.empty 0
          \<lparr>mood = Casual, post_length = Short, language = English, topic = []\<rparr> 1)
       = Failed ''Generated content too short. Please try again.'' ''content_too_short''
   \<and> fst (generate_linkedin_post (\<lambda>prompt. Inr (Some (Response (Inr ''  Hello, LinkedIn!  ''))))
          Map.empty 0
          \<lparr>mood = Casual, post_length = Short, language = English, topic = []\<rparr> 1)
       = Post ''Hello, LinkedIn!''
           \<lparr>md_mood = Casual, md_length = Short, md_language = English, character_count = 16\<rparr>"
proof -
  have a: "is_allowed Map.empty 0 1 10 60 = (True, [1 \<mapsto> [0]])"
    by (simp add: is_allowed_def)
  show ?thesis
    by (simp add: a generate_linkedin_post_def on_reply_def on_text_def strip_examples)
qed

text \<open>
  C5, amended. In a run the limiter admits, the provider's answer decides the outcome:
  no response, or a text that is empty as given, is \<^verbatim>\<open>empty_response\<close>; a text that is not
  empty but has fewer than 10 characters once leading and trailing whitespace is stripped
  is \<^verbatim>\<open>content_too_short\<close>; \<^verbatim>\<open>ResourceExhausted\<close> is \<^verbatim>\<open>quota_exceeded\<close>, any other
  \<^verbatim>\<open>GoogleAPIError\<close> is \<^verbatim>\<open>api_error\<close>, any other exception is \<^verbatim>\<open>unexpected_error\<close>
  (raised by the call or by reading the text); otherwise the outcome is the success that
  carries the stripped text, the mood, length and language of the request, and the number
  of characters of the stripped text.
\<close>

theorem generate_outcome_mapping:
  assumes "fst (is_allowed reqs now user_id 10 60)"
  shows
    "(generate_content (base_prompt request) = Inr None
        \<or> generate_content (base_prompt request) = Inr (Some (Response (Inr [])))
      \<longrightarrow> fst (generate_linkedin_post generate_content reqs now request user_id)
            = Failed ''Failed to generate content. Please try again.'' ''empty_response'')
     \<and> (generate_content (base_prompt request) = Inr (Some (Response (Inr body)))
          \<and> body \<noteq> [] \<and> length (strip body) < 10
      \<longrightarrow> fst (generate_linkedin_post generate_content reqs now request user_id)
            = Failed ''Generated content too short. Please try again.'' ''content_too_short'')
     \<and> (generate_content (base_prompt request) = Inl ResourceExhausted
        \<or> generate_content (base_prompt request) = Inr (Some (Response (Inl ResourceExhausted)))
      \<longrightarrow> fst (generate_linkedin_post generate_content reqs now request user_id)
            = Failed ''AI service quota exceeded. Please try again later.'' ''quota_exceeded'')
     \<and> (generate_content (base_prompt request) = Inl GoogleAPIError
        \<or> generate_content (base_prompt request) = Inr (Some (Response (Inl GoogleAPIError)))
      \<longrightarrow> fst (generate_linkedin_post generate_content reqs now request user_id)
            = Failed ''AI service temporarily unavailable. Please try again later.''
                ''api_error'')
     \<and> (generate_content (base_prompt request) = Inl OtherException
        \<or> generate_content (base_prompt request) = Inr (Some (Response (Inl OtherException)))
      \<longrightarrow> fst (generate_linkedin_post generate_content reqs now request user_id)
            = Failed ''An unexpected error occurred. Please try again.'' ''unexpected_error'')
     \<and> (generate_content (base_prompt request) = Inr (Some (Response (Inr body)))
          \<and> body \<noteq> [] \<and> 10 \<le> length (strip body)
      \<longrightarrow> fst (generate_linkedin_post generate_content reqs now request user_id)
            = Post (strip body)
                \<lparr>md_mood = mood request, md_length = post_length request,
                 md_language = language request, character_count = length (strip body)\<rparr>)"
  unfolding generate_admitted [OF assms]
  by (auto simp: on_reply_def on_text_def Let_def)

theorem generate_outcome_mapping_witness:
  "fst (is_allowed Map.empty 0 1 10 60)
   \<and> fst (generate_linkedin_post (\<lambda>prompt. Inr None) Map.empty 0
          \<lparr>mood = Casual, post_length = Short, language = English, topic = []\<rparr> 1)
       = Failed ''Failed to generate content. Please try again.'' ''empty_response''
   \<and> fst (generate_linkedin_post (\<lambda>prompt. Inr (Some (Response (Inr ''hi          ''))))
          Map.empty 0
          \<lparr>mood = Casual, post_length = Short, language = English, topic = []\<rparr> 1)
       = Failed ''Generated content too short. Please try again.'' ''content_too_short''
   \<and> fst (generate_linkedin_post (\<lambda>prompt. Inl ResourceExhausted) Map.empty 0
          \<lparr>mood = Casual, post_length = Short, language = English, topic = []\<rparr> 1)
       = Failed ''AI service quota exceeded. Please try again later.'' ''quota_exceeded''
   \<and> fst (generate_linkedin_post (\<lambda>prompt. Inl GoogleAPIError) Map.empty 0
          \<lparr>mood = Casual, post_length = Short, language = English, topic = []\<rparr> 1)
       = Failed ''AI service temporarily unavailable. Please try again later.'' ''api_error''
   \<and> fst (generate_linkedin_post (\<lambda>prompt. Inr (Some (Response (Inl OtherException))))
          Map.empty 0
          \<lparr>mood = Casual, post_length = Short, language = English, topic = []\<rparr> 1)
       = Failed ''An unexpected error occurred. Please try again.'' ''unexpected_error''
   \<and> fst (generate_linkedin_post (\<lambda>prompt. Inr (Some (Response (Inr ''  Hello, LinkedIn!  ''))))
          Map.empty 0
          \<lparr>mood = Casual, post_length = Short, language = English, topic = []\<rparr> 1)
       = Post ''Hello, LinkedIn!''
           \<lparr>md_mood = Casual, md_length = Short, md_language = English, character_count = 16\<rparr>"
proof -
  let ?rq = "\<lparr>mood = Casual, post_length = Short, language = English, topic = []\<rparr>"
  have a: "fst (is_allowed Map.empty 0 1 10 60)"
    by (simp add: is_allowed_def)
  note m = generate_outcome_mapping [OF a, where request = "?rq"]
  note m1 = m [where generate_content = "\<lambda>prompt. Inr None"]
  note m2 = m [where generate_content = "\<lambda>prompt. Inr (Some (Response (Inr ''hi          '')))"
      and body = "''hi          ''"]
  note m3 = m [where generate_content = "\<lambda>prompt. Inl ResourceExhausted"]
  note m4 = m [where generate_content = "\<lambda>prompt. Inl GoogleAPIError"]
  note m5 = m [where generate_content = "\<lambda>prompt. Inr (Some (Response (Inl OtherException)))"]
  note m6 = m [where generate_content =
        "\<lambda>prompt. Inr (Some (Response (Inr ''  Hello, LinkedIn!  '')))"
      and body = "''  Hello, LinkedIn!  ''"]
  show ?thesis
    using a m1 m2 m3 m4 m5 m6
    by (simp add: strip_examples)
qed

section \<open>Properties of authentication\<close>

lemma get_current_user_cases:
  "get_current_user lib now token =
     (case decode lib now token of
        Inl ExpiredSignatureError \<Rightarrow>
          Inl (HTTP (HTTPException 401 ''Token has expired''
                       [(''WWW-Authenticate'', ''Bearer'')]))
      | Inl OtherPyJWTError \<Rightarrow>
          Inl (HTTP (HTTPException 401 ''Could not validate credentials''
                       [(''WWW-Authenticate'', ''Bearer'')]))
      | Inl OtherError \<Rightarrow> Inl Unhandled
      | Inr payload \<Rightarrow>
          if payload_get payload ''sub'' = JNull \<or> payload_get payload ''user_id'' = JNull
               \<or> payload_get payload ''type'' \<noteq> JStr ''access''
          then Inl (HTTP (HTTPException 401 ''Could not validate credentials''
                            [(''WWW-Authenticate'', ''Bearer'')]))
          else Inr \<lparr>identity_username = payload_get payload ''sub'',
                    identity_user_id = payload_get payload ''user_id''\<rparr>)"
  by (simp add: get_current_user_def credentials_exception_def Let_def
      split: sum.splits jwt_exception.splits)

lemma issued_tokens:
  "create_access_token pyjwt m t [''sub'' \<mapsto> s, ''user_id'' \<mapsto> u] =
     Some \<lparr>well_formed = True, signature_ok = True, expiry = Some (t + m * 60),
           issued_at = Some t, not_before = None,
           claims = access_token_payload m t [''sub'' \<mapsto> s, ''user_id'' \<mapsto> u]\<rparr>"
  by (simp add: create_access_token_def pyjwt_def pyjwt_encode_def int_claim_def
      access_token_payload_def)

lemma issued_claims:
  "payload_get (access_token_payload m t [''sub'' \<mapsto> s, ''user_id'' \<mapsto> u]) ''sub'' = s"
  "payload_get (access_token_payload m t [''sub'' \<mapsto> s, ''user_id'' \<mapsto> u]) ''user_id'' = u"
  "payload_get (access_token_payload m t [''sub'' \<mapsto> s, ''user_id'' \<mapsto> u]) ''type''
     = JStr ''access''"
  "access_token_payload m t [''sub'' \<mapsto> s, ''user_id'' \<mapsto> u] ''aud'' = None"
  "access_token_payload m t [''sub'' \<mapsto> s, ''user_id'' \<mapsto> u] ''jti'' = None"
  "access_token_payload m t [''sub'' \<mapsto> s, ''user_id'' \<mapsto> u] ''sub'' = Some s"
  by (simp_all add: access_token_payload_def payload_get_def)

lemma decode_pyjwt: "decode pyjwt = pyjwt_decode"
  by (simp add: pyjwt_def)

lemma pyjwt_decode_issued:
  "decode pyjwt now (the (create_access_token pyjwt m t [''sub'' \<mapsto> JStr s, ''user_id'' \<mapsto> u])) =
     (if now < t then Inl OtherPyJWTError
      else if t + m * 60 \<le> now then Inl ExpiredSignatureError
      else Inr (access_token_payload m t [''sub'' \<mapsto> JStr s, ''user_id'' \<mapsto> u]))"
  by (simp add: issued_tokens decode_pyjwt pyjwt_decode_def issued_claims)





lemma pyjwt_accepts_only_verified_unexpired:
  "decode pyjwt now tok = Inr p \<Longrightarrow>
     well_formed tok \<and> signature_ok tok
     \<and> (case expiry tok of None \<Rightarrow> True | Some e \<Rightarrow> now < e)
     \<and> (case issued_at tok of None \<Rightarrow> True | Some iat \<Rightarrow> iat \<le> now)
     \<and> (case not_before tok of None \<Rightarrow> True | Some nbf \<Rightarrow> nbf \<le> now)
     \<and> p = claims tok"
  by (auto simp: decode_pyjwt pyjwt_decode_def split: if_splits option.splits)

lemma pyjwt_negative_lifetime_expired:
  "minutes < 0 \<Longrightarrow> issued \<le> now \<Longrightarrow>
     get_current_user pyjwt now
       (the (create_access_token pyjwt minutes issued [''sub'' \<mapsto> JStr s, ''user_id'' \<mapsto> u]))
     = Inl (HTTP (HTTPException 401 ''Token has expired'' [(''WWW-Authenticate'', ''Bearer'')]))"
  by (simp add: get_current_user_cases pyjwt_decode_issued)

lemma login_cases:
  "login ctx lib minutes now u p db =
     (if \<not> available db
      then Inl (HTTPException 500 ''Internal server error during login'' [])
      else case find (\<lambda>r. row_username r = lower u) (rows db) of
             None \<Rightarrow> Inl (HTTPException 401 ''Invalid username or password''
                            [(''WWW-Authenticate'', ''Bearer'')])
           | Some row \<Rightarrow>
               (case verify ctx p (row_password row) of
                  None \<Rightarrow> Inl (HTTPException 500 ''Internal server error during login'' [])
                | Some ok \<Rightarrow>
                    if \<not> ok
                    then Inl (HTTPException 401 ''Invalid username or password''
                                [(''WWW-Authenticate'', ''Bearer'')])
                    else (case create_access_token lib minutes now
                                 [''sub'' \<mapsto> JStr (row_username row),
                                  ''user_id'' \<mapsto> JInt (row_id row)] of
                            None \<Rightarrow>
                              Inl (HTTPException 500 ''Internal server error during login'' [])
                          | Some tok \<Rightarrow>
                              Inr \<lparr>access_token = tok, token_type = ''bearer''\<rparr>)))"
  by (simp add: login_def split: option.splits bool.splits)

lemma login_failure_same_when_verify_returns:
  assumes "find (\<lambda>r. row_username r = lower u1) (rows db) = None"
    and "find (\<lambda>r. row_username r = lower u2) (rows db) = Some row"
    and "verify ctx p2 (row_password row) = Some False"
  shows "login ctx lib minutes now u1 p1 db = login ctx lib minutes now u2 p2 db"
  using assms by (simp add: login_cases)

lemma login_succeeds_when_verify_accepts:
  assumes "available db"
    and "find (\<lambda>r. row_username r = lower u) (rows db) = Some row"
    and "verify ctx p (row_password row) = Some True"
    and "create_access_token lib minutes now
           [''sub'' \<mapsto> JStr (row_username row), ''user_id'' \<mapsto> JInt (row_id row)] = Some tok"
  shows "login ctx lib minutes now u p db = Inr \<lparr>access_token = tok, token_type = ''bearer''\<rparr>"
  using assms by (simp add: login_cases)

lemma lower_examples:
  "lower ''bob'' = ''bob''"
  "lower ''alice'' = ''alice''"
  by code_simp+

text \<open>
  C7 at the password \<^verbatim>\<open>"x\0"\<close>, which \<^verbatim>\<open>pwd_context.verify\<close> refuses by raising: for the
  username \<^verbatim>\<open>bob\<close>, which has no row, \<^verbatim>\<open>login\<close> answers 401 without calling \<^verbatim>\<open>verify\<close>;
  for the username \<^verbatim>\<open>alice\<close>, which has a row, \<^verbatim>\<open>verify\<close> is called inside the \<^verbatim>\<open>try\<close>
  and its exception becomes status 500. The two failures differ in status and message.
\<close>

theorem login_verify_error_reveals_user:
  "login (refusing_nul h v) lib minutes now ''bob'' [CHR ''x'', CHR 0x00]
     \<lparr>rows = [\<lparr>row_id = 1, row_username = ''alice'', row_password = stored,
                row_created_at = 0\<rparr>], next_id = 2, available = True\<rparr>
     = Inl (HTTPException 401 ''Invalid username or password''
              [(''WWW-Authenticate'', ''Bearer'')])
   \<and> login (refusing_nul h v) lib minutes now ''alice'' [CHR ''x'', CHR 0x00]
       \<lparr>rows = [\<lparr>row_id = 1, row_username = ''alice'', row_password = stored,
                  row_created_at = 0\<rparr>], next_id = 2, available = True\<rparr>
     = Inl (HTTPException 500 ''Internal server error during login'' [])"
  by (simp add: login_cases lower_examples refusing_nul_def)

lemma new_User_Inr:
  "new_User u p = Inr usr \<Longrightarrow>
     usr = \<lparr>username = lower u, password = p\<rparr>
     \<and> validate_username u = Inr (lower u) \<and> validate_password p = Inr p"
  by (auto simp: new_User_def validate_username_def validate_password_def
      split: sum.splits if_splits)

lemma signup_request_invalid:
  "new_User u p = Inl errs \<Longrightarrow> signup_request ctx now u p db = (ValidationError errs, db)"
  by (simp add: signup_request_def)

lemma validate_password_rejects:
  "length p < 8 \<or> 128 < length p \<or> \<not> list_ex is_ascii_upper p \<or> \<not> list_ex is_ascii_lower p
     \<or> \<not> list_ex is_ascii_digit p \<Longrightarrow> \<exists>e. validate_password p = Inl e"
  by (auto simp: validate_password_def)

lemma validate_username_rejects:
  "length u < 3 \<or> 50 < length u
     \<or> (\<not> list_all is_word_char u \<and> \<not> (list_all is_word_char (butlast u) \<and> last u = CHR 0x0A))
   \<Longrightarrow> \<exists>e. validate_username u = Inl e"
proof -
  have "list_all is_word_char u \<or> (list_all is_word_char (butlast u) \<and> last u = CHR 0x0A)"
    if "username_pattern_matches u"
  proof -
    from that have ne: "takeWhile is_word_char u \<noteq> []"
      and r: "dropWhile is_word_char u = [] \<or> dropWhile is_word_char u = nl"
      by (simp_all add: username_pattern_matches_def Let_def)
    from r show ?thesis
    proof
      assume "dropWhile is_word_char u = []"
      then show ?thesis by (simp add: list_all_iff)
    next
      assume d: "dropWhile is_word_char u = nl"
      have "u = takeWhile is_word_char u @ nl"
        using takeWhile_dropWhile_id [of is_word_char u] d by simp
      then have "butlast u = takeWhile is_word_char u" "last u = CHR 0x0A"
        by (metis butlast_snoc nl_def, metis last_snoc nl_def)
      then show ?thesis
        by (metis list_all_iff set_takeWhileD)
    qed
  qed
  moreover assume "length u < 3 \<or> 50 < length u
     \<or> (\<not> list_all is_word_char u \<and> \<not> (list_all is_word_char (butlast u) \<and> last u = CHR 0x0A))"
  ultimately show ?thesis
    by (auto simp: validate_username_def)
qed

lemma newline_username_valid:
  "validate_username (''abc'' @ nl) = Inr (''abc'' @ nl)"
  "validate_password ''Passw0rd'' = Inr ''Passw0rd''"
  "\<not> list_all is_word_char (''abc'' @ nl)"
  by code_simp+

text \<open>
  C8 at the username \<^verbatim>\<open>"abc\n"\<close>: the newline is outside \<^verbatim>\<open>[A-Za-z0-9_]\<close>, yet the
  pattern of \<^verbatim>\<open>validate_username\<close> matches, because \<^verbatim>\<open>$\<close> also matches before a final
  newline. The signup request is not refused: the user is created and the row, newline
  included, is written to storage.
\<close>

theorem signup_request_accepts_trailing_newline:
  "\<not> list_all is_word_char (''abc'' @ nl)
   \<and> signup_request (refusing_nul h v) 0 (''abc'' @ nl) ''Passw0rd''
       \<lparr>rows = [], next_id = 1, available = True\<rparr>
     = (Created \<lparr>response_username = ''abc'' @ nl, message = ''User created successfully''\<rparr>,
        \<lparr>rows = [\<lparr>row_id = 1, row_username = ''abc'' @ nl,
                   row_password = h ''Passw0rd'', row_created_at = 0\<rparr>],
         next_id = 2, available = True\<rparr>)"
proof (rule conjI)
  show "\<not> list_all is_word_char (''abc'' @ nl)"
    by (rule newline_username_valid)
  have "new_User (''abc'' @ nl) ''Passw0rd''
          = Inr \<lparr>username = ''abc'' @ nl, password = ''Passw0rd''\<rparr>"
    unfolding new_User_def newline_username_valid by simp
  then show "signup_request (refusing_nul h v) 0 (''abc'' @ nl) ''Passw0rd''
        \<lparr>rows = [], next_id = 1, available = True\<rparr>
     = (Created \<lparr>response_username = ''abc'' @ nl, message = ''User created successfully''\<rparr>,
        \<lparr>rows = [\<lparr>row_id = 1, row_username = ''abc'' @ nl,
                   row_password = h ''Passw0rd'', row_created_at = 0\<rparr>],
         next_id = 2, available = True\<rparr>)"
    unfolding signup_request_def by (simp add: signup_def refusing_nul_def del: append.simps)
qed

lemma signup_duplicate_when_hash_returns:
  assumes "new_User u1 p1 = Inr usr1" and "new_User u2 p2 = Inr usr2"
    and "lower u1 = lower u2" and "available db"
    and "hash ctx p1 = Some h1" and "hash ctx p2 = Some h2"
  shows
    "(list_ex (\<lambda>r. row_username r = lower u2) (rows db) \<longrightarrow>
        signup_request ctx now u2 p2 db
          = (Raised (HTTP (HTTPException 400 ''Username already exists'' [])), db))
     \<and> (\<not> list_ex (\<lambda>r. row_username r = lower u1) (rows db) \<longrightarrow>
          (let first = signup_request ctx now u1 p1 db;
               second = signup_request ctx now' u2 p2 (snd first)
           in fst first = Created \<lparr>response_username = lower u1,
                                    message = ''User created successfully''\<rparr>
              \<and> fst second = Raised (HTTP (HTTPException 400 ''Username already exists'' []))
              \<and> snd second = snd first
              \<and> length (filter (\<lambda>r. row_username r = lower u1) (rows (snd second))) = 1))"
proof -
  have u1: "usr1 = \<lparr>username = lower u1, password = p1\<rparr>"
    and u2: "usr2 = \<lparr>username = lower u2, password = p2\<rparr>"
    using assms(1,2) by (simp_all add: new_User_Inr)
  have none: "filter P xs = []" if "\<not> list_ex P xs" for P :: "user_row \<Rightarrow> bool" and xs
    using that by (induction xs) auto
  show ?thesis
    using assms none [of "\<lambda>r. row_username r = lower u2" "rows db"]
    by (simp add: signup_request_def u1 u2 signup_def Let_def)
qed

lemma signup_never_duplicates:
  "length (filter (\<lambda>r. row_username r = name) (rows db)) \<le> 1 \<Longrightarrow>
     length (filter (\<lambda>r. row_username r = name) (rows (snd (signup ctx now usr db)))) \<le> 1"
proof -
  have none: "filter P xs = []" if "\<not> list_ex P xs" for P :: "user_row \<Rightarrow> bool" and xs
    using that by (induction xs) auto
  assume "length (filter (\<lambda>r. row_username r = name) (rows db)) \<le> 1"
  then show ?thesis
    using none [of "\<lambda>r. row_username r = username usr" "rows db"]
    by (auto simp: signup_def split: option.splits)
qed

lemma nul_password_valid:
  "new_User ''alice'' (''Passw0rd'' @ [CHR 0x00])
     = Inr \<lparr>username = ''alice'', password = ''Passw0rd'' @ [CHR 0x00]\<rparr>"
  "CHR 0x00 \<in> set (''Passw0rd'' @ [CHR 0x00])"
  by code_simp+

text \<open>
  C9 at the password \<^verbatim>\<open>"Passw0rd\0"\<close>: it passes \<^verbatim>\<open>validate_password\<close>, and
  \<^verbatim>\<open>pwd_context.hash\<close> refuses it by raising. The hash is computed before the \<^verbatim>\<open>try\<close> and
  before the lookup, so a signup under the existing name \<^verbatim>\<open>alice\<close> ends in that exception
  and not in status 400 \<^verbatim>\<open>Username already exists\<close>. The table is unchanged.
\<close>

theorem signup_hash_error_precedes_conflict:
  "validate_password (''Passw0rd'' @ [CHR 0x00]) = Inr (''Passw0rd'' @ [CHR 0x00])
   \<and> signup_request (refusing_nul h v) now ''alice'' (''Passw0rd'' @ [CHR 0x00])
       \<lparr>rows = [\<lparr>row_id = 1, row_username = ''alice'', row_password = stored,
                  row_created_at = 0\<rparr>], next_id = 2, available = True\<rparr>
     = (Raised Unhandled,
        \<lparr>rows = [\<lparr>row_id = 1, row_username = ''alice'', row_password = stored,
                   row_created_at = 0\<rparr>], next_id = 2, available = True\<rparr>)"
proof (rule conjI)
  show "validate_password (''Passw0rd'' @ [CHR 0x00]) = Inr (''Passw0rd'' @ [CHR 0x00])"
    by code_simp
  have "hash (refusing_nul h v) (''Passw0rd'' @ [CHR 0x00]) = None"
    unfolding refusing_nul_def by (simp only: pwd_context.simps nul_password_valid if_True)
  then show "signup_request (refusing_nul h v) now ''alice'' (''Passw0rd'' @ [CHR 0x00])
       \<lparr>rows = [\<lparr>row_id = 1, row_username = ''alice'', row_password = stored,
                  row_created_at = 0\<rparr>], next_id = 2, available = True\<rparr>
     = (Raised Unhandled,
        \<lparr>rows = [\<lparr>row_id = 1, row_username = ''alice'', row_password = stored,
                   row_created_at = 0\<rparr>], next_id = 2, available = True\<rparr>)"
    unfolding signup_request_def nul_password_valid
    by (simp add: signup_def del: append.simps)
qed

end
